theory Spec2Isabelle
  imports Complex_Main
begin

section \<open>Python values and errors\<close>

text \<open>
  The filter expression handed to \<^verbatim>\<open>dsl_to_search\<close> is a JSON-like Python value.
  A \<^verbatim>\<open>dict\<close> keeps its insertion order, so it is an association list of key and
  value (a real dict has no key twice); \<^verbatim>\<open>d[k]\<close> and \<^verbatim>\<open>k in d\<close> are \<open>map_of\<close>.
  The compiled search criteria are a Python list of Python values as well: opcodes and
  operands are \<open>JStr\<close>, the nested group after \<^verbatim>\<open>NOT\<close> is a \<open>JList\<close>.
\<close>

datatype jv =
    JNull
  | JBool bool
  | JNum int
  | JStr string
  | JList "jv list"
  | JDict "(string \<times> jv) list"

text \<open>The exceptions the modelled code can raise.\<close>

datatype error =
    ValueError
  | TypeError
  | AttributeError
  | KeyError
  | LookupError
  | TransportError

text \<open>Python truthiness, as tested by \<^verbatim>\<open>not x\<close>, \<^verbatim>\<open>if x\<close> and \<^verbatim>\<open>x or y\<close>.\<close>

fun truthy :: "jv \<Rightarrow> bool" where
  "truthy JNull = False"
| "truthy (JBool b) = b"
| "truthy (JNum n) = (n \<noteq> 0)"
| "truthy (JStr s) = (s \<noteq> [])"
| "truthy (JList xs) = (xs \<noteq> [])"
| "truthy (JDict kvs) = (kvs \<noteq> [])"

section \<open>Dates: \<^verbatim>\<open>format_date\<close>\<close>

text \<open>
  \<^verbatim>\<open>datetime.strptime(date_str, "%Y-%m-%d")\<close> matches the regular expression
  \<^verbatim>\<open>(\d\d\d\d)-(1[0-2]|0[1-9]|[1-9])-(3[01]|[12]\d|0[1-9]|[1-9]| [1-9])\<close> at the start
  of the string, raises \<^verbatim>\<open>ValueError\<close> when it does not match, when text remains
  after the match, or when the numbers are not a date of the calendar (years 1 to 9999).
\<close>

definition is_digit :: "char \<Rightarrow> bool" where
  "is_digit c = (c \<in> set ''0123456789'')"

definition digit_val :: "char \<Rightarrow> nat" where
  "digit_val c = length (takeWhile (\<lambda>d. d \<noteq> c) ''0123456789'')"

text \<open>The year group: exactly four digits. Returns the number and the rest of the text.\<close>

fun match_year :: "string \<Rightarrow> (nat \<times> string) option" where
  "match_year (a # b # c # d # rest) =
     (if is_digit a \<and> is_digit b \<and> is_digit c \<and> is_digit d
      then Some (1000 * digit_val a + 100 * digit_val b + 10 * digit_val c + digit_val d, rest)
      else None)"
| "match_year _ = None"

text \<open>The month group: the alternatives in the order the expression lists them.\<close>

definition match_month2 :: "string \<Rightarrow> (nat \<times> string) option" where
  "match_month2 s = (case s of
       a # b # rest \<Rightarrow>
         if a = CHR ''1'' \<and> b \<in> set ''012'' then Some (10 + digit_val b, rest)
         else if a = CHR ''0'' \<and> is_digit b \<and> b \<noteq> CHR ''0'' then Some (digit_val b, rest)
         else None
     | _ \<Rightarrow> None)"

definition match_month1 :: "string \<Rightarrow> (nat \<times> string) option" where
  "match_month1 s = (case s of
       a # rest \<Rightarrow> if is_digit a \<and> a \<noteq> CHR ''0'' then Some (digit_val a, rest) else None
     | _ \<Rightarrow> None)"

text \<open>The day group is the last one: its first alternative that matches is taken.\<close>

definition match_day :: "string \<Rightarrow> (nat \<times> string) option" where
  "match_day s = (case s of
       [] \<Rightarrow> None
     | [a] \<Rightarrow> if is_digit a \<and> a \<noteq> CHR ''0'' then Some (digit_val a, []) else None
     | a # b # rest \<Rightarrow>
         if a = CHR ''3'' \<and> b \<in> set ''01'' then Some (30 + digit_val b, rest)
         else if a \<in> set ''12'' \<and> is_digit b then Some (10 * digit_val a + digit_val b, rest)
         else if a = CHR ''0'' \<and> is_digit b \<and> b \<noteq> CHR ''0'' then Some (digit_val b, rest)
         else if is_digit a \<and> a \<noteq> CHR ''0'' then Some (digit_val a, b # rest)
         else if a = CHR '' '' \<and> is_digit b \<and> b \<noteq> CHR ''0'' then Some (digit_val b, rest)
         else None)"

text \<open>
  After the month a \<^verbatim>\<open>-\<close> and the day must follow; when they do not follow the
  two-character month, the matcher backtracks to the one-character month.
\<close>

definition match_dash_day :: "string \<Rightarrow> (nat \<times> string) option" where
  "match_dash_day s = (case s of
       c # rest \<Rightarrow> if c = CHR ''-'' then match_day rest else None
     | [] \<Rightarrow> None)"

definition match_month_day :: "string \<Rightarrow> ((nat \<times> nat) \<times> string) option" where
  "match_month_day s =
     (case (case match_month2 s of
              Some (m, r) \<Rightarrow> (case match_dash_day r of Some (d, r') \<Rightarrow> Some ((m, d), r') | None \<Rightarrow> None)
            | None \<Rightarrow> None) of
        Some x \<Rightarrow> Some x
      | None \<Rightarrow>
          (case match_month1 s of
             Some (m, r) \<Rightarrow> (case match_dash_day r of Some (d, r') \<Rightarrow> Some ((m, d), r') | None \<Rightarrow> None)
           | None \<Rightarrow> None))"

definition is_leap :: "nat \<Rightarrow> bool" where
  "is_leap y = (y mod 4 = 0 \<and> (y mod 100 \<noteq> 0 \<or> y mod 400 = 0))"

definition days_in_month :: "nat \<Rightarrow> nat \<Rightarrow> nat" where
  "days_in_month y m =
     (if m = 2 then (if is_leap y then 29 else 28)
      else if m \<in> {4, 6, 9, 11} then 30 else 31)"

text \<open>A date is year, month, day.\<close>

definition strptime :: "string \<Rightarrow> error + (nat \<times> nat \<times> nat)" where
  "strptime s =
     (case match_year s of
        None \<Rightarrow> Inl ValueError
      | Some (y, r) \<Rightarrow>
          (case r of
             [] \<Rightarrow> Inl ValueError
           | c # r1 \<Rightarrow>
               if c \<noteq> CHR ''-'' then Inl ValueError
               else (case match_month_day r1 of
                       None \<Rightarrow> Inl ValueError
                     | Some ((m, d), rest) \<Rightarrow>
                         if rest \<noteq> [] then Inl ValueError
                         else if y < 1 \<or> d > days_in_month y m then Inl ValueError
                         else Inr (y, m, d))))"

text \<open>
  \<^verbatim>\<open>dt.strftime("%d-%b-%Y")\<close>: the day on two digits, the English month abbreviation,
  the year on four digits.
\<close>

definition digit_char :: "nat \<Rightarrow> char" where
  "digit_char d = ''0123456789'' ! (d mod 10)"

definition month_abbr :: "nat \<Rightarrow> string" where
  "month_abbr m =
     [''Jan'', ''Feb'', ''Mar'', ''Apr'', ''May'', ''Jun'',
      ''Jul'', ''Aug'', ''Sep'', ''Oct'', ''Nov'', ''Dec''] ! ((m - 1) mod 12)"

definition strftime :: "nat \<times> nat \<times> nat \<Rightarrow> string" where
  "strftime dt = (case dt of (y, m, d) \<Rightarrow>
     [digit_char (d div 10), digit_char d] @ ''-'' @ month_abbr m @ ''-'' @
     [digit_char (y div 1000), digit_char (y div 100), digit_char (y div 10), digit_char y])"

text \<open>\<^verbatim>\<open>strptime\<close> raises \<^verbatim>\<open>TypeError\<close> on an argument that is not a string.\<close>

definition format_date :: "jv \<Rightarrow> error + string" where
  "format_date date_str =
     (case date_str of
        JStr s \<Rightarrow> (case strptime s of Inl e \<Rightarrow> Inl e | Inr dt \<Rightarrow> Inr (strftime dt))
      | _ \<Rightarrow> Inl TypeError)"

section \<open>The query compiler: \<^verbatim>\<open>dsl_to_search\<close>\<close>

text \<open>
  \<^verbatim>\<open>parse_condition(cond)\<close>: the first of the six field names that is a key of
  \<open>cond\<close> gives the opcode and its operand; no such key gives the empty list.
\<close>

definition parse_condition :: "(string \<times> jv) list \<Rightarrow> error + jv list" where
  "parse_condition cond =
     (case map_of cond ''from'' of Some v \<Rightarrow> Inr [JStr ''FROM'', v] | None \<Rightarrow>
     (case map_of cond ''to'' of Some v \<Rightarrow> Inr [JStr ''TO'', v] | None \<Rightarrow>
     (case map_of cond ''cc'' of Some v \<Rightarrow> Inr [JStr ''CC'', v] | None \<Rightarrow>
     (case map_of cond ''subject'' of Some v \<Rightarrow> Inr [JStr ''SUBJECT'', v] | None \<Rightarrow>
     (case map_of cond ''since'' of
        Some v \<Rightarrow> (case format_date v of Inl e \<Rightarrow> Inl e | Inr d \<Rightarrow> Inr [JStr ''SINCE'', JStr d])
      | None \<Rightarrow>
     (case map_of cond ''before'' of
        Some v \<Rightarrow> (case format_date v of Inl e \<Rightarrow> Inl e | Inr d \<Rightarrow> Inr [JStr ''BEFORE'', JStr d])
      | None \<Rightarrow> Inr []))))))"

text \<open>
  The first loop of \<^verbatim>\<open>parse_criteria\<close>: over \<^verbatim>\<open>criteria.items()\<close> in the dict's
  order, every key other than \<^verbatim>\<open>or\<close> and \<^verbatim>\<open>not\<close> is compiled alone, as the
  one-key dict \<^verbatim>\<open>{key: value}\<close>, and its tokens extend \<open>result\<close>.
\<close>

fun leaf_loop :: "(string \<times> jv) list \<Rightarrow> jv list \<Rightarrow> error + jv list" where
  "leaf_loop [] result = Inr result"
| "leaf_loop ((key, val) # items) result =
     (if key \<notin> {''or'', ''not''}
      then (case parse_condition [(key, val)] of
              Inl e \<Rightarrow> Inl e
            | Inr toks \<Rightarrow> leaf_loop items (result @ toks))
      else leaf_loop items result)"

text \<open>
  The loop over the third and later \<^verbatim>\<open>or\<close> groups:
  \<^verbatim>\<open>result = ["OR"] + result + or_conditions[i]\<close>.
\<close>

fun or_rest_loop :: "jv list \<Rightarrow> jv list list \<Rightarrow> jv list" where
  "or_rest_loop result [] = result"
| "or_rest_loop result (c # cs) = or_rest_loop (JStr ''OR'' # result @ c) cs"

definition or_combine :: "jv list \<Rightarrow> jv list list \<Rightarrow> jv list" where
  "or_combine result or_conditions =
     (case or_conditions of
        c0 # c1 # cs \<Rightarrow> or_rest_loop (result @ [JStr ''OR''] @ c0 @ c1) cs
      | _ \<Rightarrow> result)"

lemma size_map_of_jv:
  "map_of kvs k = Some v \<Longrightarrow> size v < Suc (size_list (size_prod (\<lambda>_. 0) size) kvs)"
  by (induction kvs) (auto split: if_splits)

lemma size_map_of_JList:
  "map_of kvs k = Some (JList xs)
     \<Longrightarrow> size_list size xs < Suc (size_list (size_prod (\<lambda>_. 0) size) kvs)"
  using size_map_of_jv [of kvs k "JList xs"] by simp

text \<open>
  The body of \<^verbatim>\<open>parse_criteria\<close> for a dict, given what the recursive calls on the
  elements of the \<^verbatim>\<open>not\<close> list and of the \<^verbatim>\<open>or\<close> list return (\<open>None\<close> when
  the key is absent or its value is not a list, so that no call is made). The steps
  run in the source's order, and the first exception ends them: the leaf loop, the
  \<^verbatim>\<open>not\<close> block, the \<^verbatim>\<open>or\<close> block, the final test on an empty result.
\<close>

definition not_block :: "jv list \<Rightarrow> (error + jv list list) option \<Rightarrow> error + jv list" where
  "not_block result not_calls =
     (case not_calls of
        None \<Rightarrow> Inr result
      | Some (Inl e) \<Rightarrow> Inl e
      | Some (Inr groups) \<Rightarrow>
          (let not_conditions = concat groups
           in if not_conditions \<noteq> []
              then Inr (result @ [JStr ''NOT'', JList not_conditions])
              else Inr result))"

definition or_block :: "jv list \<Rightarrow> (error + jv list list) option \<Rightarrow> error + jv list" where
  "or_block result or_calls =
     (case or_calls of
        None \<Rightarrow> Inr result
      | Some (Inl e) \<Rightarrow> Inl e
      | Some (Inr or_conditions) \<Rightarrow> Inr (or_combine result or_conditions))"

definition criteria_body ::
  "(string \<times> jv) list \<Rightarrow> (error + jv list list) option \<Rightarrow> (error + jv list list) option
     \<Rightarrow> error + jv list" where
  "criteria_body criteria not_calls or_calls =
     (case leaf_loop criteria [] of
        Inl e \<Rightarrow> Inl e
      | Inr result1 \<Rightarrow>
          (case not_block result1 not_calls of
             Inl e \<Rightarrow> Inl e
           | Inr result2 \<Rightarrow>
               (case or_block result2 or_calls of
                  Inl e \<Rightarrow> Inl e
                | Inr result3 \<Rightarrow>
                    if length result3 = 0 then parse_condition criteria else Inr result3)))"

text \<open>
  \<^verbatim>\<open>parse_criteria\<close>. A value that is not a dict has no \<^verbatim>\<open>items\<close>
  (\<^verbatim>\<open>AttributeError\<close>). \<open>parse_each\<close> is the loop that compiles the elements of a
  \<^verbatim>\<open>not\<close> or \<^verbatim>\<open>or\<close> list one after the other; the first exception ends it.
\<close>

function parse_criteria :: "jv \<Rightarrow> error + jv list"
  and parse_each :: "jv list \<Rightarrow> error + jv list list" where
  "parse_criteria (JDict criteria) =
     criteria_body criteria
       (case map_of criteria ''not'' of
          Some (JList not_criteria) \<Rightarrow> Some (parse_each not_criteria)
        | _ \<Rightarrow> None)
       (case map_of criteria ''or'' of
          Some (JList or_criteria) \<Rightarrow> Some (parse_each or_criteria)
        | _ \<Rightarrow> None)"
| "parse_criteria JNull = Inl AttributeError"
| "parse_criteria (JBool b) = Inl AttributeError"
| "parse_criteria (JNum n) = Inl AttributeError"
| "parse_criteria (JStr s) = Inl AttributeError"
| "parse_criteria (JList xs) = Inl AttributeError"
| "parse_each [] = Inr []"
| "parse_each (c # cs) =
     (case parse_criteria c of
        Inl e \<Rightarrow> Inl e
      | Inr toks \<Rightarrow> (case parse_each cs of Inl e \<Rightarrow> Inl e | Inr rest \<Rightarrow> Inr (toks # rest)))"
  by pat_completeness auto
termination
  apply (relation "measure (\<lambda>x. case x of Inl c \<Rightarrow> size c | Inr cs \<Rightarrow> size_list size cs)")
  apply (simp_all add: size_map_of_JList)
  done

text \<open>
  \<^verbatim>\<open>dsl_to_search\<close>: an empty compiled list becomes the single token \<^verbatim>\<open>ALL\<close>.
\<close>

definition dsl_to_search :: "jv \<Rightarrow> error + jv list" where
  "dsl_to_search dsl =
     (case parse_criteria dsl of
        Inl e \<Rightarrow> Inl e
      | Inr search_criteria \<Rightarrow>
          if length search_criteria = 0 then Inr (search_criteria @ [JStr ''ALL''])
          else Inr search_criteria)"

section \<open>The message reconstructor: \<^verbatim>\<open>get_email_body\<close>\<close>

text \<open>
  A parsed message is a tree of MIME parts. A part has its headers, the content type
  that \<^verbatim>\<open>get_content_type()\<close> reports, its sub-parts, and the outcome of
  \<^verbatim>\<open>part.get_payload(decode=True).decode(charset or "utf-8", errors="replace")\<close>:
  the decoded text, or the exception raised (an unknown character set is a
  \<^verbatim>\<open>LookupError\<close>; undecodable bytes are replaced and raise nothing).
\<close>

datatype part =
  Part (p_headers: "(string \<times> string) list") (p_content_type: string)
       (p_decoded: "error + string") (p_subparts: "part list")

text \<open>\<^verbatim>\<open>msg.walk()\<close>: the part itself, then its sub-parts, depth first, in document order.\<close>

fun walk :: "part \<Rightarrow> part list" where
  "walk (Part hs ct dec subs) = Part hs ct dec subs # concat (map walk subs)"

definition to_lower :: "char \<Rightarrow> char" where
  "to_lower c =
     (case map_of (zip ''ABCDEFGHIJKLMNOPQRSTUVWXYZ'' ''abcdefghijklmnopqrstuvwxyz'') c of
        Some l \<Rightarrow> l
      | None \<Rightarrow> c)"

definition str_lower :: "string \<Rightarrow> string" where
  "str_lower s = map to_lower s"

text \<open>Header names are matched without regard to case; the first match counts.\<close>

fun header_get :: "(string \<times> string) list \<Rightarrow> string \<Rightarrow> string option" where
  "header_get [] name = None"
| "header_get ((k, v) # hs) name =
     (if str_lower k = str_lower name then Some v else header_get hs name)"

text \<open>\<^verbatim>\<open>needle in haystack\<close> on strings.\<close>

fun str_contains :: "string \<Rightarrow> string \<Rightarrow> bool" where
  "str_contains needle [] = (needle = [])"
| "str_contains needle (c # cs) =
     (take (length needle) (c # cs) = needle \<or> str_contains needle cs)"

definition is_attachment :: "part \<Rightarrow> bool" where
  "is_attachment p =
     (let content_disposition =
            str_lower (case header_get (p_headers p) ''Content-Disposition'' of
                         Some v \<Rightarrow> v
                       | None \<Rightarrow> [])
      in str_contains ''attachment'' content_disposition)"

text \<open>
  One pass of the loop body; the state is \<open>(text_part, html_part)\<close>, each \<open>None\<close>
  until a part has been taken.
\<close>

definition body_step ::
  "string option \<times> string option \<Rightarrow> part \<Rightarrow> error + (string option \<times> string option)" where
  "body_step st p =
     (case st of (text_part, html_part) \<Rightarrow>
        if is_attachment p then Inr (text_part, html_part)
        else if p_content_type p = ''text/plain'' \<and> text_part = None
        then (case p_decoded p of Inl e \<Rightarrow> Inl e | Inr t \<Rightarrow> Inr (Some t, html_part))
        else if p_content_type p = ''text/html'' \<and> html_part = None
        then (case p_decoded p of Inl e \<Rightarrow> Inl e | Inr h \<Rightarrow> Inr (text_part, Some h))
        else Inr (text_part, html_part))"

fun body_loop ::
  "part list \<Rightarrow> string option \<times> string option \<Rightarrow> error + (string option \<times> string option)" where
  "body_loop [] st = Inr st"
| "body_loop (p # ps) st =
     (case body_step st p of Inl e \<Rightarrow> Inl e | Inr st' \<Rightarrow> body_loop ps st')"

text \<open>
  \<^verbatim>\<open>text_part or html_part or ""\<close>: \<open>None\<close> and the empty string are both false.
\<close>

definition or_else :: "string option \<Rightarrow> string option \<Rightarrow> string" where
  "or_else text_part html_part =
     (case text_part of
        Some (c # cs) \<Rightarrow> c # cs
      | _ \<Rightarrow> (case html_part of Some (c # cs) \<Rightarrow> c # cs | _ \<Rightarrow> []))"

definition get_email_body :: "part \<Rightarrow> error + string" where
  "get_email_body msg =
     (case body_loop (walk msg) (None, None) of
        Inl e \<Rightarrow> Inl e
      | Inr (text_part, html_part) \<Rightarrow> Inr (or_else text_part html_part))"

section \<open>The transport session\<close>

text \<open>
  The module's settings (\<^verbatim>\<open>IMAP_SERVER\<close>, \<^verbatim>\<open>IMAP_PORT\<close>, \<^verbatim>\<open>IMAP_USER\<close>,
  \<^verbatim>\<open>IMAP_PASSWORD\<close>, \<^verbatim>\<open>IMAP_USE_STARTTLS\<close>), set once at start-up.
\<close>

record config =
  imap_server :: string
  imap_port :: int
  imap_user :: string
  imap_password :: string
  imap_use_starttls :: bool

text \<open>
  What the code asks of the outside world, in the order it asks: the calls on the
  \<^verbatim>\<open>IMAPClient\<close> session, the log message of \<^verbatim>\<open>search\<close> and \<^verbatim>\<open>time.sleep\<close>.
  \<open>Connect\<close> carries host, port and the \<^verbatim>\<open>ssl\<close> flag; \<open>Fetch\<close> the ids and the
  items asked for; \<open>Logout\<close> is the session's close when the \<^verbatim>\<open>with\<close> block is left.
\<close>

datatype event =
    SendLog "jv list"
  | Connect string int bool
  | StartTLS
  | Login string string
  | SelectFolder string
  | Search "jv list"
  | Fetch "int list" "string list"
  | Sleep rat
  | Logout

text \<open>
  The answers of the mail server, as the client library hands them over: \<open>None\<close> for a
  call that returns nothing and succeeds, otherwise the exception raised. A fetch
  answers with a dict from id to the items of that message; the inner \<open>None\<close> is an
  entry without the \<^verbatim>\<open>b"RFC822"\<close> item. The raw message is given by its parse
  (\<^verbatim>\<open>email.message_from_bytes\<close> accepts any bytes).
\<close>

type_synonym fetch_response = "int \<rightharpoonup> part option"

record transport =
  t_connect :: "error option"
  t_starttls :: "error option"
  t_login :: "error option"
  t_select_folder :: "string \<Rightarrow> error option"
  t_search :: "string \<Rightarrow> jv list \<Rightarrow> error + int list"
  t_fetch :: "string \<Rightarrow> int list \<Rightarrow> error + fetch_response"

text \<open>A computation with effects: the events it caused, and its value or exception.\<close>

type_synonym 'a io = "event list \<times> (error + 'a)"

definition io_bind :: "'a io \<Rightarrow> ('a \<Rightarrow> 'b io) \<Rightarrow> 'b io" where
  "io_bind m f =
     (case m of
        (evs, Inl e) \<Rightarrow> (evs, Inl e)
      | (evs, Inr x) \<Rightarrow> (case f x of (evs', r) \<Rightarrow> (evs @ evs', r)))"

definition command :: "event \<Rightarrow> error option \<Rightarrow> unit io" where
  "command ev answer = ([ev], case answer of Some e \<Rightarrow> Inl e | None \<Rightarrow> Inr ())"

text \<open>
  \<^verbatim>\<open>with IMAPClient(host=..., port=..., ssl=not IMAP_USE_STARTTLS) as client:\<close> followed
  by the optional \<^verbatim>\<open>starttls\<close> and the \<^verbatim>\<open>login\<close>, then the block's own body. Once
  the client exists, leaving the block closes the session, exception or not.
\<close>

definition with_client :: "config \<Rightarrow> transport \<Rightarrow> 'a io \<Rightarrow> 'a io" where
  "with_client cfg tr body =
     (let opened = Connect (imap_server cfg) (imap_port cfg) (\<not> imap_use_starttls cfg)
      in case t_connect tr of
           Some e \<Rightarrow> ([opened], Inl e)
         | None \<Rightarrow>
             (case io_bind (if imap_use_starttls cfg then command StartTLS (t_starttls tr)
                            else ([], Inr ()))
                     (\<lambda>_. io_bind (command (Login (imap_user cfg) (imap_password cfg)) (t_login tr))
                     (\<lambda>_. body)) of
                (evs, r) \<Rightarrow> (opened # evs @ [Logout], r)))"

section \<open>The retrieval orchestrator: \<^verbatim>\<open>search\<close>\<close>

definition BATCH_SIZE :: nat where
  "BATCH_SIZE = 50"

definition SLEEP_TIME :: rat where
  "SLEEP_TIME = 1 / 2"

text \<open>
  The batch loop \<^verbatim>\<open>for i in range(0, len(msg_ids), BATCH_SIZE)\<close>: fetch the slice
  \<^verbatim>\<open>msg_ids[i : i + BATCH_SIZE]\<close>, merge the answer into \<open>resp\<close>, and sleep when
  \<^verbatim>\<open>i + BATCH_SIZE < len(msg_ids)\<close>.
\<close>

function fetch_loop ::
  "transport \<Rightarrow> string \<Rightarrow> int list \<Rightarrow> string list \<Rightarrow> nat \<Rightarrow> fetch_response \<Rightarrow> fetch_response io" where
  "fetch_loop tr folder msg_ids fetch_items i resp =
     (if i < length msg_ids
      then (let batch_ids = take BATCH_SIZE (drop i msg_ids)
            in case t_fetch tr folder batch_ids of
                 Inl e \<Rightarrow> ([Fetch batch_ids fetch_items], Inl e)
               | Inr batch_resp \<Rightarrow>
                   (let pause = (if i + BATCH_SIZE < length msg_ids then [Sleep SLEEP_TIME] else [])
                    in case fetch_loop tr folder msg_ids fetch_items (i + BATCH_SIZE)
                              (resp ++ batch_resp) of
                         (evs, r) \<Rightarrow> (Fetch batch_ids fetch_items # pause @ evs, r)))
      else ([], Inr resp))"
  by pat_completeness auto
termination
  by (relation "measure (\<lambda>(tr, folder, msg_ids, fetch_items, i, resp). length msg_ids - i)")
     (auto simp: BATCH_SIZE_def)

text \<open>\<^verbatim>\<open>str(n)\<close> for an integer: decimal digits, with a minus sign when negative.\<close>

fun string_of_nat :: "nat \<Rightarrow> string" where
  "string_of_nat n =
     (if n < 10 then [digit_char n] else string_of_nat (n div 10) @ [digit_char n])"

definition string_of_int :: "int \<Rightarrow> string" where
  "string_of_int n = (if n < 0 then ''-'' @ string_of_nat (nat (- n)) else string_of_nat (nat n))"

text \<open>One entry of the result of \<^verbatim>\<open>search\<close>; absent keys are \<open>None\<close>.\<close>

record message_data =
  md_id :: string
  md_headers :: "(string \<times> string) list option"
  md_body :: "string option"

definition header_names :: "string list" where
  "header_names = [''From'', ''To'', ''Cc'', ''Subject'', ''Date'', ''Message-ID'']"

definition extract_headers :: "part \<Rightarrow> (string \<times> string) list" where
  "extract_headers msg =
     List.map_filter
       (\<lambda>header. case header_get (p_headers msg) header of
                    Some v \<Rightarrow> Some (str_lower header, v)
                  | None \<Rightarrow> None)
       header_names"

text \<open>The body of the loop \<^verbatim>\<open>for id in msg_ids\<close> that builds one message.\<close>

definition build_message ::
  "string \<Rightarrow> jv \<Rightarrow> jv \<Rightarrow> fetch_response \<Rightarrow> int \<Rightarrow> error + message_data" where
  "build_message folder fetch_headers fetch_body resp n =
     (let message_data = \<lparr>md_id = string_of_int n @ ''@'' @ folder,
                           md_headers = None, md_body = None\<rparr>
      in if truthy fetch_headers \<or> truthy fetch_body
         then (case resp n of
                 None \<Rightarrow> Inl KeyError
               | Some None \<Rightarrow> Inl KeyError
               | Some (Some msg) \<Rightarrow>
                   (let with_headers =
                          (if truthy fetch_headers
                           then message_data\<lparr>md_headers := Some (extract_headers msg)\<rparr>
                           else message_data)
                    in if truthy fetch_body
                       then (case get_email_body msg of
                               Inl e \<Rightarrow> Inl e
                             | Inr body \<Rightarrow> Inr (with_headers\<lparr>md_body := Some body\<rparr>))
                       else Inr with_headers))
         else Inr message_data)"

fun build_messages ::
  "string \<Rightarrow> jv \<Rightarrow> jv \<Rightarrow> fetch_response \<Rightarrow> int list \<Rightarrow> message_data list
     \<Rightarrow> error + message_data list" where
  "build_messages folder fetch_headers fetch_body resp [] messages = Inr messages"
| "build_messages folder fetch_headers fetch_body resp (n # ids) messages =
     (case build_message folder fetch_headers fetch_body resp n of
        Inl e \<Rightarrow> Inl e
      | Inr message_data \<Rightarrow>
          build_messages folder fetch_headers fetch_body resp ids (messages @ [message_data]))"

text \<open>\<^verbatim>\<open>fields.get(key, False)\<close>.\<close>

definition fields_get :: "(string \<times> jv) list \<Rightarrow> string \<Rightarrow> jv" where
  "fields_get fields_dict key =
     (case map_of fields_dict key of Some v \<Rightarrow> v | None \<Rightarrow> JBool False)"

text \<open>
  \<^verbatim>\<open>search(folder, criteria, fields)\<close>; \<open>fields\<close> is \<open>None\<close> when the argument is left
  out. The result is the list under the key \<^verbatim>\<open>messages\<close>. The criteria are compiled
  before the log message is sent and before the client is created.
\<close>

definition search ::
  "config \<Rightarrow> transport \<Rightarrow> string \<Rightarrow> jv \<Rightarrow> (string \<times> jv) list option \<Rightarrow> message_data list io" where
  "search cfg tr folder criteria fields_arg =
     (let fields_dict = (case fields_arg of None \<Rightarrow> [] | Some f \<Rightarrow> f);
          fetch_headers = fields_get fields_dict ''headers'';
          fetch_body = fields_get fields_dict ''body'';
          fetch_email_data = (if truthy fetch_headers then fetch_headers else fetch_body)
      in case dsl_to_search criteria of
           Inl e \<Rightarrow> ([], Inl e)
         | Inr compiled \<Rightarrow>
             (let search_criteria = [JStr ''charset'', JStr ''UTF-8''] @ compiled
              in io_bind ([SendLog search_criteria], Inr ())
                (\<lambda>_. with_client cfg tr
                   (io_bind (command (SelectFolder folder) (t_select_folder tr folder))
                   (\<lambda>_. io_bind ([Search search_criteria], t_search tr folder search_criteria)
                   (\<lambda>msg_ids.
                      if \<not> truthy fetch_email_data \<or> msg_ids = [] then ([], Inr [])
                      else (let fetch_items =
                                  (if truthy fetch_headers \<or> truthy fetch_body
                                   then [''RFC822''] else [])
                            in io_bind (fetch_loop tr folder msg_ids fetch_items 0 Map.empty)
                                 (\<lambda>resp. ([], build_messages folder fetch_headers fetch_body
                                                 resp msg_ids [])))))))))"

section \<open>The retrieval orchestrator: \<^verbatim>\<open>fetch\<close>\<close>

text \<open>
  \<^verbatim>\<open>message_id.split("@", 1)\<close>: the text before and after the first \<^verbatim>\<open>@\<close>;
  \<open>None\<close> when there is no \<^verbatim>\<open>@\<close>, and then the unpacking into two names raises.
\<close>

fun split_first :: "char \<Rightarrow> string \<Rightarrow> (string \<times> string) option" where
  "split_first sep [] = None"
| "split_first sep (c # cs) =
     (if c = sep then Some ([], cs)
      else (case split_first sep cs of
              Some (before, after) \<Rightarrow> Some (c # before, after)
            | None \<Rightarrow> None))"

text \<open>
  \<^verbatim>\<open>int(id)\<close> on a string: white space around is dropped, a sign may lead, then
  decimal digits, with single underscores allowed between digits.
\<close>

definition is_space :: "char \<Rightarrow> bool" where
  "is_space c =
     (c \<in> set [CHR '' '', CHR 0x09, CHR 0x0A, CHR 0x0B, CHR 0x0C, CHR 0x0D,
               CHR 0x1C, CHR 0x1D, CHR 0x1E, CHR 0x1F, CHR 0x85, CHR 0xA0])"

definition strip :: "string \<Rightarrow> string" where
  "strip s = rev (dropWhile is_space (rev (dropWhile is_space s)))"

fun digits_ok :: "string \<Rightarrow> bool" where
  "digits_ok [] = False"
| "digits_ok [c] = is_digit c"
| "digits_ok (c # d # rest) =
     (is_digit c \<and> (if d = CHR ''_'' then digits_ok rest else digits_ok (d # rest)))"

definition digits_value :: "string \<Rightarrow> nat" where
  "digits_value s = foldl (\<lambda>a c. 10 * a + digit_val c) 0 (filter is_digit s)"

definition py_int :: "string \<Rightarrow> int option" where
  "py_int s =
     (case strip s of
        [] \<Rightarrow> None
      | c # r \<Rightarrow>
          if c = CHR ''-'' then (if digits_ok r then Some (- int (digits_value r)) else None)
          else if c = CHR ''+'' then (if digits_ok r then Some (int (digits_value r)) else None)
          else if digits_ok (c # r) then Some (int (digits_value (c # r)))
          else None)"

text \<open>
  One pass of the loop \<^verbatim>\<open>for message_id in message_ids\<close>: a session of its own,
  the folder selected, the one id fetched, the entry looked up in the answer
  (\<^verbatim>\<open>resp[int(id)][b"RFC822"]\<close>, a \<^verbatim>\<open>KeyError\<close> when the id or the item is not there),
  and the body taken. No exception is caught.
\<close>

definition fetch_one :: "config \<Rightarrow> transport \<Rightarrow> string \<Rightarrow> string io" where
  "fetch_one cfg tr message_id =
     (case split_first CHR ''@'' message_id of
        None \<Rightarrow> ([], Inl ValueError)
      | Some (id_str, folder) \<Rightarrow>
          with_client cfg tr
            (io_bind (command (SelectFolder folder) (t_select_folder tr folder))
            (\<lambda>_. case py_int id_str of
                    None \<Rightarrow> ([], Inl ValueError)
                  | Some n \<Rightarrow>
                      io_bind ([Fetch [n] [''RFC822'']], t_fetch tr folder [n])
                        (\<lambda>resp. case resp n of
                                   None \<Rightarrow> ([], Inl KeyError)
                                 | Some None \<Rightarrow> ([], Inl KeyError)
                                 | Some (Some msg) \<Rightarrow> ([], get_email_body msg)))))"

fun fetch_each ::
  "config \<Rightarrow> transport \<Rightarrow> string list \<Rightarrow> (string \<rightharpoonup> string) \<Rightarrow> (string \<rightharpoonup> string) io" where
  "fetch_each cfg tr [] results = ([], Inr results)"
| "fetch_each cfg tr (message_id # rest) results =
     (case fetch_one cfg tr message_id of
        (evs, Inl e) \<Rightarrow> (evs, Inl e)
      | (evs, Inr body) \<Rightarrow>
          (case fetch_each cfg tr rest (results(message_id \<mapsto> body)) of
             (evs', r) \<Rightarrow> (evs @ evs', r)))"

definition fetch :: "config \<Rightarrow> transport \<Rightarrow> string list \<Rightarrow> (string \<rightharpoonup> string) io" where
  "fetch cfg tr message_ids = fetch_each cfg tr message_ids Map.empty"

section \<open>Vocabulary of the specification\<close>

text \<open>
  The names the specification uses for the compiler: the six leaf fields in the
  order it calls their precedence, the keys it recognizes, the opcode of a field
  (its name in upper case) and the operand (the value, or the reformatted date).
\<close>


definition leaf_fields :: "string list" where
  "leaf_fields = [''from'', ''to'', ''cc'', ''subject'', ''since'', ''before'']"

definition recognized_keys :: "string list" where
  "recognized_keys = leaf_fields @ [''or'', ''not'']"

definition to_upper :: "char \<Rightarrow> char" where
  "to_upper c =
     (case map_of (zip ''abcdefghijklmnopqrstuvwxyz'' ''ABCDEFGHIJKLMNOPQRSTUVWXYZ'') c of
        Some u \<Rightarrow> u
      | None \<Rightarrow> c)"

definition leaf_operand :: "string \<Rightarrow> jv \<Rightarrow> jv" where
  "leaf_operand k v =
     (if k = ''since'' \<or> k = ''before''
      then (case format_date v of Inr d \<Rightarrow> JStr d | Inl e \<Rightarrow> JNull)
      else v)"

definition leaf_items :: "(string \<times> jv) list \<Rightarrow> (string \<times> jv) list" where
  "leaf_items kvs = filter (\<lambda>kv. fst kv \<in> set leaf_fields) kvs"

definition input_order_pairs :: "(string \<times> jv) list \<Rightarrow> jv list" where
  "input_order_pairs kvs =
     concat (map (\<lambda>kv. [JStr (map to_upper (fst kv)), leaf_operand (fst kv) (snd kv)]) kvs)"

text \<open>
  The opcode/operand pairs of the leaf fields as the specification orders them: by the
  fixed precedence, whatever the order of the keys in the expression.
\<close>

definition precedence_order_pairs :: "(string \<times> jv) list \<Rightarrow> jv list" where
  "precedence_order_pairs kvs =
     input_order_pairs (concat (map (\<lambda>f. filter (\<lambda>kv. fst kv = f) kvs) leaf_fields))"

section \<open>Properties of the query compiler\<close>

lemma parse_condition_unknown:
  "k \<notin> set leaf_fields \<Longrightarrow> parse_condition [(k, v)] = Inr []"
  by (auto simp: parse_condition_def leaf_fields_def)

lemma upper_fields:
  "map to_upper ''from'' = ''FROM''" "map to_upper ''to'' = ''TO''"
  "map to_upper ''cc'' = ''CC''" "map to_upper ''subject'' = ''SUBJECT''"
  "map to_upper ''since'' = ''SINCE''" "map to_upper ''before'' = ''BEFORE''"
  by (simp_all add: to_upper_def)

lemma parse_condition_text_field:
  "parse_condition [(''from'', v)] = Inr [JStr (map to_upper ''from''), leaf_operand ''from'' v]"
  "parse_condition [(''to'', v)] = Inr [JStr (map to_upper ''to''), leaf_operand ''to'' v]"
  "parse_condition [(''cc'', v)] = Inr [JStr (map to_upper ''cc''), leaf_operand ''cc'' v]"
  "parse_condition [(''subject'', v)]
     = Inr [JStr (map to_upper ''subject''), leaf_operand ''subject'' v]"
  unfolding upper_fields by (simp_all add: parse_condition_def leaf_operand_def)

lemma parse_condition_date_field:
  "parse_condition [(''since'', v)] = Inr toks
     \<Longrightarrow> toks = [JStr (map to_upper ''since''), leaf_operand ''since'' v]"
  "parse_condition [(''before'', v)] = Inr toks
     \<Longrightarrow> toks = [JStr (map to_upper ''before''), leaf_operand ''before'' v]"
  unfolding upper_fields
  by (auto simp: parse_condition_def leaf_operand_def split: sum.splits)

lemma parse_condition_leaf:
  assumes "k \<in> set leaf_fields" and "parse_condition [(k, v)] = Inr toks"
  shows "toks = [JStr (map to_upper k), leaf_operand k v]"
proof -
  from assms(1) have "k = ''from'' \<or> k = ''to'' \<or> k = ''cc'' \<or> k = ''subject''
      \<or> k = ''since'' \<or> k = ''before''"
    by (auto simp: leaf_fields_def)
  then show ?thesis
  proof (elim disjE)
    assume k: "k = ''from''"
    from assms(2) show ?thesis unfolding k parse_condition_text_field by simp
  next
    assume k: "k = ''to''"
    from assms(2) show ?thesis unfolding k parse_condition_text_field by simp
  next
    assume k: "k = ''cc''"
    from assms(2) show ?thesis unfolding k parse_condition_text_field by simp
  next
    assume k: "k = ''subject''"
    from assms(2) show ?thesis unfolding k parse_condition_text_field by simp
  next
    assume k: "k = ''since''"
    from assms(2) show ?thesis unfolding k by (rule parse_condition_date_field)
  next
    assume k: "k = ''before''"
    from assms(2) show ?thesis unfolding k by (rule parse_condition_date_field)
  qed
qed

lemma leaf_loop_input_order:
  "leaf_loop kvs acc = Inr r \<Longrightarrow> r = acc @ input_order_pairs (leaf_items kvs)"
proof (induction kvs arbitrary: acc)
  case Nil
  then show ?case by (simp add: input_order_pairs_def leaf_items_def)
next
  case (Cons kv kvs)
  obtain k v where kv: "kv = (k, v)" by (cases kv)
  show ?case
  proof (cases "k \<in> set leaf_fields")
    case True
    then have k2: "k \<notin> {''or'', ''not''}" by (auto simp: leaf_fields_def)
    from Cons.prems kv k2 obtain toks where
      t: "parse_condition [(k, v)] = Inr toks" and l: "leaf_loop kvs (acc @ toks) = Inr r"
      by (auto split: sum.splits)
    from parse_condition_leaf [OF True t]
    have toks: "toks = [JStr (map to_upper k), leaf_operand k v]" .
    from Cons.IH [OF l] toks kv True show ?thesis
      by (simp add: input_order_pairs_def leaf_items_def)
  next
    case False
    then have "parse_condition [(k, v)] = Inr []" by (rule parse_condition_unknown)
    with Cons.prems kv have "leaf_loop kvs acc = Inr r" by (simp split: if_splits)
    from Cons.IH [OF this] kv False show ?thesis
      by (simp add: leaf_items_def)
  qed
qed

lemma or_rest_loop_eq:
  "or_rest_loop result cs = replicate (length cs) (JStr ''OR'') @ result @ concat cs"
proof (induction cs arbitrary: result)
  case Nil
  then show ?case by simp
next
  case (Cons c cs)
  have "replicate (length cs) (JStr ''OR'') @ [JStr ''OR'']
        = JStr ''OR'' # replicate (length cs) (JStr ''OR'')"
    by (simp add: replicate_append_same)
  then show ?case using Cons.IH [of "JStr ''OR'' # result @ c"]
    by (metis (no_types, lifting) Cons_eq_appendI append_assoc append_self_conv2 concat.simps(2) length_Cons
        or_rest_loop.simps(2) replicate_Suc replicate_app_Cons_same)
qed

lemma or_combine_shape:
  "\<exists>pre post. or_combine result ocs = pre @ result @ post"
proof (cases ocs)
  case Nil
  then have "or_combine result ocs = [] @ result @ []" by (simp add: or_combine_def)
  then show ?thesis by blast
next
  case (Cons c0 rest)
  show ?thesis
  proof (cases rest)
    case Nil
    with Cons have "or_combine result ocs = [] @ result @ []" by (simp add: or_combine_def)
    then show ?thesis by blast
  next
    case (Cons c1 cs)
    with \<open>ocs = c0 # rest\<close> have
      "or_combine result ocs = replicate (length cs) (JStr ''OR'') @ result
         @ ([JStr ''OR''] @ c0 @ c1 @ concat cs)"
      by (simp add: or_combine_def or_rest_loop_eq)
    then show ?thesis by blast
  qed
qed

lemma not_block_shape:
  "not_block result nc = Inr r \<Longrightarrow> \<exists>post. r = result @ post"
  by (auto simp: not_block_def Let_def split: option.splits sum.splits if_splits)

lemma or_block_shape:
  "or_block result oc = Inr r \<Longrightarrow> \<exists>pre post. r = pre @ result @ post \<and> (oc = None \<longrightarrow> pre = [])"
proof (cases oc)
  case None
  assume "or_block result oc = Inr r"
  with None have "r = [] @ result @ []" by (simp add: or_block_def)
  with None show ?thesis by blast
next
  case (Some a)
  assume a: "or_block result oc = Inr r"
  with Some obtain ocs where "a = Inr ocs" and "r = or_combine result ocs"
    by (auto simp: or_block_def split: sum.splits)
  with or_combine_shape [of result ocs] Some show ?thesis by auto
qed

lemma criteria_body_shape:
  assumes "criteria_body kvs nc oc = Inr r"
  shows "\<exists>pre post. r = pre @ input_order_pairs (leaf_items kvs) @ post \<and> (oc = None \<longrightarrow> pre = [])"
proof -
  let ?leaf = "input_order_pairs (leaf_items kvs)"
  from assms obtain r1 r2 r3 where
    l: "leaf_loop kvs [] = Inr r1" and n: "not_block r1 nc = Inr r2"
    and o: "or_block r2 oc = Inr r3"
    and f: "(if length r3 = 0 then parse_condition kvs else Inr r3) = Inr r"
    by (auto simp: criteria_body_def split: sum.splits)
  from leaf_loop_input_order [OF l] have r1: "r1 = ?leaf" by simp
  from not_block_shape [OF n] obtain post1 where r2: "r2 = r1 @ post1" by blast
  from or_block_shape [OF o] obtain pre post2 where
    r3: "r3 = pre @ r2 @ post2" and pre: "oc = None \<longrightarrow> pre = []" by blast
  show ?thesis
  proof (cases "r3 = []")
    case True
    with r3 r2 r1 have "?leaf = []" by simp
    then have "r = [] @ ?leaf @ r" by simp
    then show ?thesis by blast
  next
    case False
    with f have "r = r3" by simp
    with r3 r2 r1 have "r = pre @ ?leaf @ (post1 @ post2)" by simp
    with pre show ?thesis by blast
  qed
qed

lemma map_of_absent: "k \<notin> set (map fst kvs) \<Longrightarrow> map_of kvs k = None"
  by (simp add: map_of_eq_None_iff)

lemma parse_condition_none:
  assumes "set (map fst kvs) \<inter> set leaf_fields = {}"
  shows "parse_condition kvs = Inr []"
proof -
  have "\<And>k. k \<in> set leaf_fields \<Longrightarrow> map_of kvs k = None"
    using assms by (intro map_of_absent) auto
  then show ?thesis by (simp add: parse_condition_def leaf_fields_def)
qed

lemma input_order_pairs_Nil: "input_order_pairs xs = [] \<Longrightarrow> xs = []"
  by (cases xs) (simp_all add: input_order_pairs_def)

lemma leaf_items_empty:
  assumes "input_order_pairs (leaf_items kvs) = []"
  shows "set (map fst kvs) \<inter> set leaf_fields = {}"
proof -
  from assms have "leaf_items kvs = []" by (rule input_order_pairs_Nil)
  then have "\<forall>kv \<in> set kvs. fst kv \<notin> set leaf_fields"
    by (simp add: leaf_items_def filter_empty_conv)
  then show ?thesis by auto
qed

lemma parse_each_all2:
  "parse_each subs = Inr groups \<Longrightarrow> list_all2 (\<lambda>c g. parse_criteria c = Inr g) subs groups"
  by (induction subs arbitrary: groups) (auto split: sum.splits)

lemma dsl_to_search_Inr:
  assumes "dsl_to_search c = Inr toks"
  shows "\<exists>r. parse_criteria c = Inr r \<and> toks = (if r = [] then [JStr ''ALL''] else r)"
proof (cases "parse_criteria c")
  case (Inl e)
  with assms show ?thesis unfolding dsl_to_search_def by simp
next
  case (Inr r)
  with assms show ?thesis unfolding dsl_to_search_def by (cases "r = []") simp_all
qed

text \<open>
  Claim C1, as the code has it. The claim asks for the leaf pairs in the fixed
  precedence order whatever the order of the keys. The code walks
  \<^verbatim>\<open>criteria.items()\<close>, so the leaf pairs come out, one next to the other, in the
  order in which the keys appear in the expression; when the expression has no
  \<^verbatim>\<open>or\<close> key nothing precedes them.
\<close>

theorem leaf_tokens_follow_input_order:
  assumes "dsl_to_search (JDict kvs) = Inr toks"
  shows "\<exists>pre post. toks = pre @ input_order_pairs (leaf_items kvs) @ post
           \<and> (map_of kvs ''or'' = None \<longrightarrow> pre = [])"
proof -
  define nc where "nc = (case map_of kvs ''not'' of
          Some (JList not_criteria) \<Rightarrow> Some (parse_each not_criteria)
        | _ \<Rightarrow> None)"
  define oc where "oc = (case map_of kvs ''or'' of
          Some (JList or_criteria) \<Rightarrow> Some (parse_each or_criteria)
        | _ \<Rightarrow> None)"
  have pc: "parse_criteria (JDict kvs) = criteria_body kvs nc oc"
    unfolding nc_def oc_def by (rule parse_criteria.simps(1))
  from dsl_to_search_Inr [OF assms] obtain r where
    r: "parse_criteria (JDict kvs) = Inr r" and t: "toks = (if r = [] then [JStr ''ALL''] else r)"
    by blast
  from r pc have "criteria_body kvs nc oc = Inr r" by simp
  from criteria_body_shape [OF this] obtain pre post where
    s: "r = pre @ input_order_pairs (leaf_items kvs) @ post" and p: "oc = None \<longrightarrow> pre = []"
    by blast
  have oc: "map_of kvs ''or'' = None \<Longrightarrow> oc = None" by (simp add: oc_def)
  show ?thesis
  proof (cases "r = []")
    case True
    with s t have a: "toks = [] @ input_order_pairs (leaf_items kvs) @ [JStr ''ALL'']" by simp
    have b: "map_of kvs ''or'' = None \<longrightarrow> ([]::jv list) = []" by simp
    show ?thesis
      by (rule exI [where x = "[]"], rule exI [where x = "[JStr ''ALL'']"], rule conjI, rule a, rule b)
  next
    case False
    with t s have a: "toks = pre @ input_order_pairs (leaf_items kvs) @ post" by simp
    have b: "map_of kvs ''or'' = None \<longrightarrow> pre = []"
    proof
      assume "map_of kvs ''or'' = None"
      then have "oc = None" by (rule oc)
      with p show "pre = []" by simp
    qed
    show ?thesis
      by (rule exI [where x = pre], rule exI [where x = post], rule conjI, rule a, rule b)
  qed
qed

text \<open>
  Witness for C1: the keys \<^verbatim>\<open>subject\<close>, \<^verbatim>\<open>since\<close>, \<^verbatim>\<open>from\<close> in that order
  compile to their pairs in that order.
\<close>

theorem leaf_tokens_follow_input_order_witness:
  "dsl_to_search (JDict [(''subject'', JStr ''s''), (''since'', JStr ''2023-01-15''), (''from'', JStr ''f'')])
     = Inr [JStr ''SUBJECT'', JStr ''s'', JStr ''SINCE'', JStr ''15-Jan-2023'', JStr ''FROM'', JStr ''f'']
   \<and> (\<exists>pre post. [JStr ''SUBJECT'', JStr ''s'', JStr ''SINCE'', JStr ''15-Jan-2023'', JStr ''FROM'', JStr ''f'']
         = pre @ input_order_pairs (leaf_items
             [(''subject'', JStr ''s''), (''since'', JStr ''2023-01-15''), (''from'', JStr ''f'')]) @ post
         \<and> (map_of [(''subject'', JStr ''s''), (''since'', JStr ''2023-01-15''), (''from'', JStr ''f'')] ''or'' = None
              \<longrightarrow> pre = []))"
proof -
  have h: "dsl_to_search (JDict [(''subject'', JStr ''s''), (''since'', JStr ''2023-01-15''), (''from'', JStr ''f'')])
     = Inr [JStr ''SUBJECT'', JStr ''s'', JStr ''SINCE'', JStr ''15-Jan-2023'', JStr ''FROM'', JStr ''f'']"
    by code_simp
  from h leaf_tokens_follow_input_order [OF h] show ?thesis by (rule conjI)
qed

text \<open>
  Counterexample to C1 as stated: for \<^verbatim>\<open>{"subject": "s", "from": "f"}\<close> the compiled
  sequence starts with \<^verbatim>\<open>SUBJECT\<close>, while the precedence order puts \<^verbatim>\<open>FROM\<close> first.
\<close>

theorem leaf_precedence_order_counterexample:
  "dsl_to_search (JDict [(''subject'', JStr ''s''), (''from'', JStr ''f'')])
     = Inr [JStr ''SUBJECT'', JStr ''s'', JStr ''FROM'', JStr ''f'']
   \<and> precedence_order_pairs [(''subject'', JStr ''s''), (''from'', JStr ''f'')]
     = [JStr ''FROM'', JStr ''f'', JStr ''SUBJECT'', JStr ''s'']
   \<and> dsl_to_search (JDict [(''subject'', JStr ''s''), (''from'', JStr ''f'')])
     \<noteq> Inr (precedence_order_pairs [(''subject'', JStr ''s''), (''from'', JStr ''f'')])"
  by code_simp

text \<open>
  Claim C2 at the failing input: a leaf field together with an \<^verbatim>\<open>or\<close> list of three
  sub-expressions. The loop over the third group wraps the whole of \<open>result\<close>, so the
  sequence starts with \<^verbatim>\<open>OR\<close> and the leaf pair \<^verbatim>\<open>FROM a\<close> is no longer first.
\<close>

theorem or_three_groups_wraps_leaf_tokens:
  "dsl_to_search (JDict [(''from'', JStr ''a''),
       (''or'', JList [JDict [(''to'', JStr ''b'')], JDict [(''to'', JStr ''c'')],
                       JDict [(''to'', JStr ''d'')]])])
     = Inr [JStr ''OR'', JStr ''FROM'', JStr ''a'', JStr ''OR'', JStr ''TO'', JStr ''b'',
            JStr ''TO'', JStr ''c'', JStr ''TO'', JStr ''d'']"
  by (simp add: dsl_to_search_def criteria_body_def parse_condition_def not_block_def
      or_block_def or_combine_def)

end
